theory Spec2Isabelle
  imports Main
begin

section \<open>Preprocessing tokens, macros and directive lines\<close>

text \<open>
  The repository is one header, \<^verbatim>\<open>src/include/common.hpp\<close>, made of preprocessor
  directives only. The header is embedded as the list of its lines; what the lines do is
  given by a model of the preprocessor: a macro table updated line by line under a stack of
  conditional groups, and macro replacement over token lists.
\<close>

datatype token =
    Ident string      \<comment> \<open>identifier\<close>
  | Num nat           \<comment> \<open>decimal integer constant\<close>
  | Str string        \<comment> \<open>string literal (its characters, escapes decoded)\<close>
  | LParen | RParen | Comma
  | Paste             \<comment> \<open>the \<^verbatim>\<open>##\<close> operator\<close>
  | Punct string      \<comment> \<open>any other punctuator, e.g. \<^verbatim>\<open>!\<close>\<close>

datatype macro =
    ObjectLike "token list"
      \<comment> \<open>\<^verbatim>\<open>#define N body\<close>\<close>
  | FunctionLike "string list" "string option" "token list"
      \<comment> \<open>\<^verbatim>\<open>#define N(params, variadic) body\<close>: the named parameters, the name under which
          the trailing arguments are known (\<^verbatim>\<open>__VA_ARGS__\<close> for \<^verbatim>\<open>...\<close>, \<^verbatim>\<open>args\<close> for the
          GNU form \<^verbatim>\<open>args...\<close>), the replacement list\<close>

datatype line =
    Blank             \<comment> \<open>empty line, or a line holding only a comment\<close>
  | PragmaOnce
  | Ifdef string
  | Ifndef string
  | Else
  | Endif
  | Define string macro

datatype pp_error =
    ElseWithoutIf | ElseAfterElse | EndifWithoutIf | UnterminatedConditional
  | OutOfFuel | UnterminatedInvocation string | WrongArgCount string | UnsupportedPaste

datatype diag = Redefined string

record pp_state =
  macros :: "string \<rightharpoonup> macro"   \<comment> \<open>the macro table\<close>
  once :: "string set"            \<comment> \<open>files that asked to be read once only\<close>
  diags :: "diag list"            \<comment> \<open>redefinition diagnostics issued so far\<close>

datatype cond = Cond (taking: bool) (seen_else: bool)

section \<open>Directive processing\<close>

definition defined :: "pp_state \<Rightarrow> string \<Rightarrow> bool" where
  "defined st n = (macros st n \<noteq> None)"

definition active :: "cond list \<Rightarrow> bool" where
  "active cs = list_all taking cs"

text \<open>
  \<^verbatim>\<open>#define\<close>: a name that is free, or bound to the very same macro, is bound silently; a
  name bound to a different macro is diagnosed and the later definition replaces the
  earlier one (the behaviour of GCC and Clang, for which the header is written).
\<close>

definition define_macro :: "string \<Rightarrow> macro \<Rightarrow> pp_state \<Rightarrow> pp_state" where
  "define_macro n m st =
     (case macros st n of
        None \<Rightarrow> st\<lparr>macros := (macros st)(n \<mapsto> m)\<rparr>
      | Some m' \<Rightarrow>
          if m' = m then st
          else st\<lparr>macros := (macros st)(n \<mapsto> m), diags := diags st @ [Redefined n]\<rparr>)"

fun step :: "string \<Rightarrow> line \<Rightarrow> cond list \<Rightarrow> pp_state \<Rightarrow> pp_error + (cond list \<times> pp_state)" where
  "step f Blank cs st = Inr (cs, st)"
| "step f PragmaOnce cs st =
     Inr (cs, if active cs then st\<lparr>once := insert f (once st)\<rparr> else st)"
| "step f (Ifdef n) cs st = Inr (Cond (defined st n) False # cs, st)"
| "step f (Ifndef n) cs st = Inr (Cond (\<not> defined st n) False # cs, st)"
| "step f Else [] st = Inl ElseWithoutIf"
| "step f Else (Cond t e # cs) st =
     (if e then Inl ElseAfterElse else Inr (Cond (\<not> t) True # cs, st))"
| "step f Endif [] st = Inl EndifWithoutIf"
| "step f Endif (c # cs) st = Inr (cs, st)"
| "step f (Define n m) cs st = Inr (cs, if active cs then define_macro n m st else st)"

fun run_lines :: "string \<Rightarrow> line list \<Rightarrow> cond list \<Rightarrow> pp_state \<Rightarrow> pp_error + pp_state" where
  "run_lines f [] cs st = (if cs = [] then Inr st else Inl UnterminatedConditional)"
| "run_lines f (l # ls) cs st =
     (case step f l cs st of
        Inl e \<Rightarrow> Inl e
      | Inr (cs', st') \<Rightarrow> run_lines f ls cs' st')"

text \<open>
  \<^verbatim>\<open>#include\<close> of a file: a file that has asked to be read once only is skipped;
  otherwise its lines are processed, starting outside any conditional.
\<close>

definition include_file :: "string \<Rightarrow> line list \<Rightarrow> pp_state \<Rightarrow> pp_error + pp_state" where
  "include_file f ls st = (if f \<in> once st then Inr st else run_lines f ls [] st)"

section \<open>Macro replacement\<close>

text \<open>
  The arguments of a function-like macro invocation: the tokens after the opening
  parenthesis are split at the commas outside nested parentheses, up to the matching closing
  parenthesis. The result is the arguments and the tokens after the invocation; \<open>None\<close>
  when the closing parenthesis is missing.
\<close>

fun collect_args ::
  "nat \<Rightarrow> token list \<Rightarrow> token list list \<Rightarrow> token list \<Rightarrow> (token list list \<times> token list) option" where
  "collect_args d cur acc [] = None"
| "collect_args d cur acc (LParen # ts) = collect_args (Suc d) (cur @ [LParen]) acc ts"
| "collect_args 0 cur acc (RParen # ts) = Some (acc @ [cur], ts)"
| "collect_args (Suc d) cur acc (RParen # ts) = collect_args d (cur @ [RParen]) acc ts"
| "collect_args 0 cur acc (Comma # ts) = collect_args 0 [] (acc @ [cur]) ts"
| "collect_args d cur acc (t # ts) = collect_args d (cur @ [t]) acc ts"

fun join_args :: "token list list \<Rightarrow> token list" where
  "join_args [] = []"
| "join_args [a] = a"
| "join_args (a # as) = a @ Comma # join_args as"

text \<open>
  Whether the variadic argument of an invocation is absent: no argument was written after
  the named ones, or (in GNU mode) the invocation is an empty pair of parentheses. An
  argument that is written but empty, as in \<^verbatim>\<open>DEBUG("hello",)\<close>, is present.
\<close>

definition va_absent :: "string list \<Rightarrow> token list list \<Rightarrow> bool" where
  "va_absent ps args = (length args \<le> length ps \<or> args = [[]])"

text \<open>
  Binding arguments to parameters. A macro without a variadic part takes exactly as many
  arguments as it has parameters (an empty pair of parentheses is no argument for a macro
  without parameters). A variadic macro takes at least its named parameters; the trailing
  arguments, commas included, are bound to the variadic name, and may be absent. The result
  is the binding together with the flag that the variadic argument is absent.
\<close>

definition bind_args ::
  "string list \<Rightarrow> string option \<Rightarrow> token list list \<Rightarrow>
   ((string \<rightharpoonup> token list) \<times> bool) option" where
  "bind_args ps v args =
     (case v of
        None \<Rightarrow>
          if length args = length ps then Some (map_of (zip ps args), False)
          else if ps = [] \<and> args = [[]] then Some (Map.empty, False)
          else None
      | Some va \<Rightarrow>
          if length ps \<le> length args
          then Some ((map_of (zip ps args))(va \<mapsto> join_args (drop (length ps) args)),
                     va_absent ps args)
          else None)"

definition paste_next :: "token list \<Rightarrow> bool" where
  "paste_next ts = (case ts of Paste # _ \<Rightarrow> True | _ \<Rightarrow> False)"

text \<open>
  Substitution of the arguments into a replacement list. A parameter is replaced by its
  argument, fully macro-replaced first (by \<open>E\<close>). The only use of \<^verbatim>\<open>##\<close> that is
  modelled is the GNU form \<^verbatim>\<open>, ## args\<close> on the variadic parameter: when the variadic
  argument is absent (\<open>absent\<close>) the comma is dropped; when it is present, even if empty,
  the comma and the arguments, as written, are kept. Any other paste is reported as
  unsupported.
\<close>

fun subst ::
  "(token list \<Rightarrow> pp_error + token list) \<Rightarrow> (string \<rightharpoonup> token list) \<Rightarrow> string option \<Rightarrow>
   bool \<Rightarrow> token list \<Rightarrow> pp_error + token list" where
  "subst E b v absent [] = Inr []"
| "subst E b v absent (Paste # ts) = Inl UnsupportedPaste"
| "subst E b v absent (Comma # ts) =
     (case ts of
        Paste # ts1 \<Rightarrow>
          (case ts1 of
             Ident p # ts2 \<Rightarrow>
               (if v = Some p then
                  (case b p of
                     None \<Rightarrow> Inl UnsupportedPaste
                   | Some a \<Rightarrow>
                       map_sum id (\<lambda>r. (if absent then [] else Comma # a) @ r)
                         (subst E b v absent ts2))
                else Inl UnsupportedPaste)
           | _ \<Rightarrow> Inl UnsupportedPaste)
      | _ \<Rightarrow> map_sum id (\<lambda>r. Comma # r) (subst E b v absent ts))"
| "subst E b v absent (Ident p # ts) =
     (if paste_next ts then Inl UnsupportedPaste
      else
        (case b p of
           None \<Rightarrow> map_sum id (\<lambda>r. Ident p # r) (subst E b v absent ts)
         | Some a \<Rightarrow>
             (case E a of
                Inl e \<Rightarrow> Inl e
              | Inr a' \<Rightarrow> map_sum id (\<lambda>r. a' @ r) (subst E b v absent ts))))"
| "subst E b v absent (t # ts) =
     (if paste_next ts then Inl UnsupportedPaste
      else map_sum id (\<lambda>r. t # r) (subst E b v absent ts))"

text \<open>
  Macro replacement of a token list, at the source location \<open>loc\<close> (file name and line).
  \<^verbatim>\<open>__FILE__\<close> and \<^verbatim>\<open>__LINE__\<close> are built in. The replacement of a macro is rescanned
  together with the tokens that follow it. Each replacement uses one unit of fuel \<open>k\<close>.
  The rule that a macro name met while its own replacement is rescanned is left alone is
  not modelled: on a self-referential macro table the result is \<open>OutOfFuel\<close>, never a
  token list. The header defines no such macro.
\<close>

fun expand :: "nat \<Rightarrow> (string \<rightharpoonup> macro) \<Rightarrow> string \<times> nat \<Rightarrow> token list \<Rightarrow> pp_error + token list" where
  "expand k env loc [] = Inr []"
| "expand k env loc (Ident n # ts) =
     (if n = ''__FILE__'' then map_sum id (\<lambda>r. Str (fst loc) # r) (expand k env loc ts)
      else if n = ''__LINE__'' then map_sum id (\<lambda>r. Num (snd loc) # r) (expand k env loc ts)
      else
        (case env n of
           None \<Rightarrow> map_sum id (\<lambda>r. Ident n # r) (expand k env loc ts)
         | Some (ObjectLike body) \<Rightarrow>
             (case k of 0 \<Rightarrow> Inl OutOfFuel | Suc k' \<Rightarrow> expand k' env loc (body @ ts))
         | Some (FunctionLike ps v body) \<Rightarrow>
             (case ts of
                LParen # ts' \<Rightarrow>
                  (case k of
                     0 \<Rightarrow> Inl OutOfFuel
                   | Suc k' \<Rightarrow>
                       (case collect_args 0 [] [] ts' of
                          None \<Rightarrow> Inl (UnterminatedInvocation n)
                        | Some (args, rest) \<Rightarrow>
                            (case bind_args ps v args of
                               None \<Rightarrow> Inl (WrongArgCount n)
                             | Some (b, absent) \<Rightarrow>
                                 (case subst (expand k' env loc) b v absent body of
                                    Inl e \<Rightarrow> Inl e
                                  | Inr body' \<Rightarrow> expand k' env loc (body' @ rest)))))
              | _ \<Rightarrow> map_sum id (\<lambda>r. Ident n # r) (expand k env loc ts))))"
| "expand k env loc (t # ts) = map_sum id (\<lambda>r. t # r) (expand k env loc ts)"

text \<open>A token list in which nothing is replaced: no identifier is a macro or built in.\<close>

definition plain :: "(string \<rightharpoonup> macro) \<Rightarrow> token list \<Rightarrow> bool" where
  "plain env ts =
     list_all (\<lambda>t. case t of
                     Ident n \<Rightarrow> env n = None \<and> n \<noteq> ''__FILE__'' \<and> n \<noteq> ''__LINE__''
                   | _ \<Rightarrow> True) ts"

section \<open>The header\<close>

definition likely_macro :: macro where
  "likely_macro =
     FunctionLike [''x''] None
       [Ident ''__builtin_expect'', LParen, Punct ''!'', Punct ''!'', LParen, Ident ''x'', RParen,
        Comma, Num 1, RParen]"

definition unlikely_macro :: macro where
  "unlikely_macro =
     FunctionLike [''x''] None
       [Ident ''__builtin_expect'', LParen, Punct ''!'', Punct ''!'', LParen, Ident ''x'', RParen,
        Comma, Num 0, RParen]"

definition attribute :: "token list \<Rightarrow> token list" where
  "attribute ts = [Ident ''__attribute__'', LParen, LParen] @ ts @ [RParen, RParen]"

definition debug_print_macro :: macro where
  "debug_print_macro =
     FunctionLike [''format''] (Some ''args'')
       [Ident ''printf'', LParen,
        Str ''FILE: '', Ident ''__FILE__'', Str '', LINE: %d: '', Ident ''format'', Str ''\<newline>'',
        Comma, Ident ''__LINE__'', Comma, Paste, Ident ''args'', RParen]"

definition debug_empty_macro :: macro where
  "debug_empty_macro = FunctionLike [''format''] (Some ''__VA_ARGS__'') []"

text \<open>The lines of \<^verbatim>\<open>common.hpp\<close>, one entry per source line, in order.\<close>

definition common_hpp :: "line list" where
  "common_hpp =
    [ PragmaOnce,
      Blank,
      Ifndef ''COMMON_HPP'',
      Define ''COMMON_HPP'' (ObjectLike []),
      Blank,
      Ifndef ''likely'',
      Define ''likely'' likely_macro,
      Define ''unlikely'' unlikely_macro,
      Endif,
      Blank,
      Define ''ATTRIBUTE_NEVER_INLINE'' (ObjectLike (attribute [Ident ''noinline''])),
      Define ''ATTRIBUTE_ALWAYS_INLINE'' (ObjectLike (attribute [Ident ''always_inline''])),
      Define ''ATTRIBUTE_HIDDEN''
        (ObjectLike (attribute [Ident ''visibility'', LParen, Str ''hidden'', RParen])),
      Define ''ATTRIBUTE_EXPORT''
        (ObjectLike (attribute [Ident ''visibility'', LParen, Str ''default'', RParen])),
      Define ''ATTRIBUTE_ALIGNED''
        (FunctionLike [''s''] None (attribute [Ident ''aligned'', LParen, Ident ''s'', RParen])),
      Define ''CACHELINE_SIZE'' (ObjectLike [Num 64]),
      Define ''CACHELINE_ALIGNED''
        (ObjectLike [Ident ''ATTRIBUTE_ALIGNED'', LParen, Ident ''CACHELINE_SIZE'', RParen]),
      Define ''CACHELINE_ALIGNED_FN'' (ObjectLike [Ident ''CACHELINE_ALIGNED'']),
      Blank,
      Define ''USE_COMPRESSED_PTRS'' (ObjectLike [Num 0]),
      Define ''USE_SIZE_CACHES'' (ObjectLike [Num 0]),
      Blank,
      Blank,
      Ifdef ''__DEBUG'',
      Define ''DEBUG'' debug_print_macro,
      Else,
      Define ''DEBUG'' debug_empty_macro,
      Endif,
      Blank,
      Endif ]"

definition include_common :: "pp_state \<Rightarrow> pp_error + pp_state" where
  "include_common = include_file ''common.hpp'' common_hpp"

text \<open>A translation unit that has seen nothing yet.\<close>

definition initial :: pp_state where
  "initial = \<lparr>macros = Map.empty, once = {}, diags = []\<rparr>"


section \<open>Values of the branch hints\<close>

text \<open>
  What an expansion of \<^verbatim>\<open>likely\<close> or \<^verbatim>\<open>unlikely\<close> evaluates to. The expressions are the
  forms the two replacement lists are built from, around an operand that stands for the
  macro argument as written; the value of the operand is given by the program state \<open>\<sigma>\<close>.
  Scalars are integers, pointers (address 0 is the null pointer) and floating values, of
  which only the class matters here. \<^verbatim>\<open>!\<close> has its C meaning: 1 for a scalar that compares
  equal to 0, else 0. \<^verbatim>\<open>__builtin_expect\<close> is the compiler's: both arguments are integers
  and the value is that of the first.
\<close>

datatype fclass = FZero | FFinite | FInfinite | FNaN
  \<comment> \<open>signed zero, finite and not zero, infinite, not a number\<close>

datatype val = IntV int | PtrV nat | FloatV fclass

datatype expr =
    Operand "token list"
  | Const nat
  | Paren expr
  | Not expr
  | Expect expr expr

fun show_expr :: "expr \<Rightarrow> token list" where
  "show_expr (Operand ts) = ts"
| "show_expr (Const n) = [Num n]"
| "show_expr (Paren e) = LParen # show_expr e @ [RParen]"
| "show_expr (Not e) = Punct ''!'' # show_expr e"
| "show_expr (Expect e c) =
     Ident ''__builtin_expect'' # LParen # show_expr e @ Comma # show_expr c @ [RParen]"

fun nonzero :: "val \<Rightarrow> bool" where
  "nonzero (IntV i) = (i \<noteq> 0)"
| "nonzero (PtrV a) = (a \<noteq> 0)"
| "nonzero (FloatV c) = (c \<noteq> FZero)"

fun eval :: "(token list \<rightharpoonup> val) \<Rightarrow> expr \<Rightarrow> val option" where
  "eval \<sigma> (Operand ts) = \<sigma> ts"
| "eval \<sigma> (Const n) = Some (IntV (int n))"
| "eval \<sigma> (Paren e) = eval \<sigma> e"
| "eval \<sigma> (Not e) =
     (case eval \<sigma> e of
        None \<Rightarrow> None
      | Some v \<Rightarrow> Some (IntV (if nonzero v then 0 else 1)))"
| "eval \<sigma> (Expect e c) =
     (case eval \<sigma> e of
        Some (IntV i) \<Rightarrow> (case eval \<sigma> c of Some (IntV j) \<Rightarrow> Some (IntV i) | _ \<Rightarrow> None)
      | _ \<Rightarrow> None)"

section \<open>Facts about the model\<close>

lemma macros_define_macro [simp]: "macros (define_macro n m st) = (macros st)(n \<mapsto> m)"
  by (auto simp: define_macro_def split: option.splits)

lemma once_define_macro [simp]: "once (define_macro n m st) = once st"
  by (simp add: define_macro_def split: option.splits)

lemma defined_define_macro [simp]: "defined (define_macro n m st) k = (k = n \<or> defined st k)"
  by (auto simp: defined_def)

lemma defined_once_update [simp]: "defined (st\<lparr>once := x\<rparr>) k = defined st k"
  by (simp add: defined_def)

lemmas run_header = include_common_def include_file_def common_hpp_def active_def

lemma initial_fresh: "\<not> defined initial n" "f \<notin> once initial"
  by (simp_all add: initial_def defined_def)

text \<open>With the guard symbol defined, the lines of the header only record the file as read.\<close>

lemma guarded_skip:
  assumes "defined st ''COMMON_HPP''"
  shows "run_lines f common_hpp [] st = Inr (st\<lparr>once := insert f (once st)\<rparr>)"
  using assms by (simp add: common_hpp_def active_def)

lemma first_run:
  assumes "\<not> defined st ''COMMON_HPP''"
  shows "\<exists>st1. run_lines f common_hpp [] st = Inr st1 \<and> f \<in> once st1 \<and> defined st1 ''COMMON_HPP''"
  using assms
  by (cases "defined st ''likely''"; cases "defined st ''__DEBUG''")
     (simp_all add: common_hpp_def active_def)

lemma initial_table:
  assumes "include_common initial = Inr st'"
  shows "macros st' ''p'' = None" and "macros st' ''n'' = None"
    and "macros st' ''__builtin_expect'' = None" and "macros st' ''printf'' = None"
  using assms by (auto simp: run_header initial_def defined_def)



subsection \<open>Macro replacement\<close>

text \<open>Plain tokens pass through replacement unchanged, whatever follows them.\<close>

lemma expand_plain:
  "plain env ts \<Longrightarrow> expand k env loc (ts @ rest) = map_sum id ((@) ts) (expand k env loc rest)"
proof (induction ts)
  case Nil
  show ?case by (cases "expand k env loc rest") simp_all
next
  case (Cons t ts)
  then have "plain env ts" by (simp add: plain_def)
  with Cons.IH have ih: "expand k env loc (ts @ rest) = map_sum id ((@) ts) (expand k env loc rest)" .
  from Cons.prems show ?case
    by (cases t; cases "expand k env loc rest") (simp_all add: plain_def ih)
qed

lemma expand_plain_only: "plain env ts \<Longrightarrow> expand k env loc ts = Inr ts"
  using expand_plain [of env ts k loc "[]"] by simp

text \<open>After one named parameter the variadic argument is absent iff nothing follows it.\<close>

lemma va_absent_one [simp]: "va_absent [p] (a # args) = (args = [])"
  by (auto simp: va_absent_def)





text \<open>An invocation always has at least one argument, possibly empty.\<close>

lemma collect_args_length:
  "collect_args d cur acc ts = Some (args, rest) \<Longrightarrow> length acc < length args"
  by (induction d cur acc ts rule: collect_args.induct) auto

lemma expand_likely:
  assumes "env ''likely'' = Some likely_macro"
    and "collect_args 0 [] [] ts = Some ([x], rest)"
    and "plain env x" and "env ''__builtin_expect'' = None"
  shows "expand (Suc k) env loc (Ident ''likely'' # LParen # ts) =
           map_sum id
             ((@) ([Ident ''__builtin_expect'', LParen, Punct ''!'', Punct ''!'', LParen] @ x @
                   [RParen, Comma, Num 1, RParen]))
             (expand k env loc rest)"
proof -
  have p: "plain env ([Ident ''__builtin_expect'', LParen, Punct ''!'', Punct ''!'', LParen] @ x @
                   [RParen, Comma, Num 1, RParen])"
    using assms(3,4) by (simp add: plain_def)
  have "expand (Suc k) env loc (Ident ''likely'' # LParen # ts) =
          expand k env loc (([Ident ''__builtin_expect'', LParen, Punct ''!'', Punct ''!'', LParen] @ x @
                   [RParen, Comma, Num 1, RParen]) @ rest)"
    using assms(1,2) expand_plain_only [OF assms(3), of k loc]
    by (simp add: likely_macro_def bind_args_def paste_next_def)
  then show ?thesis
    by (simp only: expand_plain [OF p])
qed

lemma expand_unlikely:
  assumes "env ''unlikely'' = Some unlikely_macro"
    and "collect_args 0 [] [] ts = Some ([x], rest)"
    and "plain env x" and "env ''__builtin_expect'' = None"
  shows "expand (Suc k) env loc (Ident ''unlikely'' # LParen # ts) =
           map_sum id
             ((@) ([Ident ''__builtin_expect'', LParen, Punct ''!'', Punct ''!'', LParen] @ x @
                   [RParen, Comma, Num 0, RParen]))
             (expand k env loc rest)"
proof -
  have p: "plain env ([Ident ''__builtin_expect'', LParen, Punct ''!'', Punct ''!'', LParen] @ x @
                   [RParen, Comma, Num 0, RParen])"
    using assms(3,4) by (simp add: plain_def)
  have "expand (Suc k) env loc (Ident ''unlikely'' # LParen # ts) =
          expand k env loc (([Ident ''__builtin_expect'', LParen, Punct ''!'', Punct ''!'', LParen] @ x @
                   [RParen, Comma, Num 0, RParen]) @ rest)"
    using assms(1,2) expand_plain_only [OF assms(3), of k loc]
    by (simp add: unlikely_macro_def bind_args_def paste_next_def)
  then show ?thesis
    by (simp only: expand_plain [OF p])
qed

lemma expand_debug_empty:
  assumes "env ''DEBUG'' = Some debug_empty_macro"
    and "collect_args 0 [] [] ts = Some (args, rest)"
  shows "expand (Suc k) env loc (Ident ''DEBUG'' # LParen # ts) = expand k env loc rest"
proof -
  from collect_args_length [OF assms(2)] have "Suc 0 \<le> length args"
    by (cases args) simp_all
  with assms show ?thesis
    by (simp add: debug_empty_macro_def bind_args_def)
qed


text \<open>
  The same invocations for arbitrary arguments: the argument that replaces a parameter is
  macro-replaced first, and the instantiated replacement list is rescanned together with
  the tokens after the invocation.
\<close>

lemma expand_likely_any:
  assumes "env ''likely'' = Some likely_macro"
    and "collect_args 0 [] [] ts = Some ([x], rest)"
  shows "expand (Suc k) env loc (Ident ''likely'' # LParen # ts) =
           (case expand k env loc x of
              Inl e \<Rightarrow> Inl e
            | Inr x' \<Rightarrow>
                expand k env loc
                  ([Ident ''__builtin_expect'', LParen, Punct ''!'', Punct ''!'', LParen] @ x' @
                   [RParen, Comma, Num 1, RParen] @ rest))"
  using assms
  by (simp add: likely_macro_def bind_args_def paste_next_def split: sum.splits)

lemma expand_unlikely_any:
  assumes "env ''unlikely'' = Some unlikely_macro"
    and "collect_args 0 [] [] ts = Some ([x], rest)"
  shows "expand (Suc k) env loc (Ident ''unlikely'' # LParen # ts) =
           (case expand k env loc x of
              Inl e \<Rightarrow> Inl e
            | Inr x' \<Rightarrow>
                expand k env loc
                  ([Ident ''__builtin_expect'', LParen, Punct ''!'', Punct ''!'', LParen] @ x' @
                   [RParen, Comma, Num 0, RParen] @ rest))"
  using assms
  by (simp add: unlikely_macro_def bind_args_def paste_next_def split: sum.splits)


subsection \<open>The names the header defines\<close>

lemma names_as_union:
  "insert ''DEBUG'' (insert ''USE_SIZE_CACHES'' (insert ''USE_COMPRESSED_PTRS''
     (insert ''CACHELINE_ALIGNED_FN'' (insert ''CACHELINE_ALIGNED'' (insert ''CACHELINE_SIZE''
     (insert ''ATTRIBUTE_ALIGNED'' (insert ''ATTRIBUTE_EXPORT'' (insert ''ATTRIBUTE_HIDDEN''
     (insert ''ATTRIBUTE_ALWAYS_INLINE'' (insert ''ATTRIBUTE_NEVER_INLINE''
     (insert ''unlikely'' (insert ''likely'' (insert ''COMMON_HPP'' D))))))))))))) =
   D \<union> {''COMMON_HPP'',
        ''likely'', ''unlikely'', ''ATTRIBUTE_NEVER_INLINE'', ''ATTRIBUTE_ALWAYS_INLINE'',
        ''ATTRIBUTE_HIDDEN'', ''ATTRIBUTE_EXPORT'', ''ATTRIBUTE_ALIGNED'', ''CACHELINE_SIZE'',
        ''CACHELINE_ALIGNED'', ''CACHELINE_ALIGNED_FN'', ''USE_COMPRESSED_PTRS'',
        ''USE_SIZE_CACHES'', ''DEBUG''}"
  by (intro set_eqI) (simp only: insert_iff Un_iff empty_iff disj_ac simp_thms)

lemma dom_after_include:
  assumes "\<not> defined st ''COMMON_HPP''" and "''common.hpp'' \<notin> once st"
    and "\<not> defined st ''likely''"
  shows "\<exists>st'. include_common st = Inr st' \<and>
           dom (macros st') =
             insert ''DEBUG'' (insert ''USE_SIZE_CACHES'' (insert ''USE_COMPRESSED_PTRS''
             (insert ''CACHELINE_ALIGNED_FN'' (insert ''CACHELINE_ALIGNED'' (insert ''CACHELINE_SIZE''
             (insert ''ATTRIBUTE_ALIGNED'' (insert ''ATTRIBUTE_EXPORT'' (insert ''ATTRIBUTE_HIDDEN''
             (insert ''ATTRIBUTE_ALWAYS_INLINE'' (insert ''ATTRIBUTE_NEVER_INLINE''
             (insert ''unlikely'' (insert ''likely'' (insert ''COMMON_HPP'' (dom (macros st)))))))))))))))"
  using assms by (cases "defined st ''__DEBUG''") (simp_all add: run_header)

section \<open>The claims\<close>

text \<open>
  C1. The macro \<^verbatim>\<open>CACHELINE_SIZE\<close> defined by the header equals 64: wherever the header is
  read (its guard symbol not yet defined, the file not yet marked as read), the table
  binds \<^verbatim>\<open>CACHELINE_SIZE\<close> to the object-like macro with replacement list \<^verbatim>\<open>64\<close>, and the
  token \<^verbatim>\<open>CACHELINE_SIZE\<close> is replaced by \<^verbatim>\<open>64\<close>.
\<close>

theorem cacheline_size_64:
  assumes "\<not> defined st ''COMMON_HPP''" and "''common.hpp'' \<notin> once st"
  shows "\<exists>st'. include_common st = Inr st' \<and>
           macros st' ''CACHELINE_SIZE'' = Some (ObjectLike [Num 64]) \<and>
           (\<forall>k loc. expand (Suc k) (macros st') loc [Ident ''CACHELINE_SIZE''] = Inr [Num 64])"
  using assms by (simp add: run_header)

theorem cacheline_size_64_witness:
  "\<not> defined initial ''COMMON_HPP'' \<and> ''common.hpp'' \<notin> once initial \<and>
   (\<exists>st'. include_common initial = Inr st' \<and>
      macros st' ''CACHELINE_SIZE'' = Some (ObjectLike [Num 64]) \<and>
      expand (Suc 0) (macros st') (''main.cpp'', 1) [Ident ''CACHELINE_SIZE''] = Inr [Num 64])"
  using cacheline_size_64 [OF initial_fresh] initial_fresh by blast

text \<open>
  C2. Including the header again changes nothing: after one inclusion a second one returns
  the very same state (same macro table, no new diagnostic). The guard alone is enough:
  whenever \<^verbatim>\<open>COMMON_HPP\<close> is defined, processing the lines of the header, even without the
  skip that \<^verbatim>\<open>#pragma once\<close> gives, leaves every macro definition and the diagnostics
  unchanged.
\<close>

theorem include_idempotent:
  "\<exists>st1. include_common st = Inr st1 \<and> include_common st1 = Inr st1 \<and>
     (defined st ''COMMON_HPP'' \<longrightarrow>
        (\<exists>st2. run_lines ''common.hpp'' common_hpp [] st = Inr st2 \<and>
               macros st2 = macros st \<and> diags st2 = diags st))"
proof (cases "''common.hpp'' \<in> once st")
  case True
  then show ?thesis
    by (simp add: include_common_def include_file_def guarded_skip)
next
  case False
  show ?thesis
  proof (cases "defined st ''COMMON_HPP''")
    case True
    with False show ?thesis
      by (simp add: include_common_def include_file_def guarded_skip)
  next
    case False
    from first_run [OF False, of "''common.hpp''"] obtain st1
      where "run_lines ''common.hpp'' common_hpp [] st = Inr st1" and "''common.hpp'' \<in> once st1"
      by blast
    with False \<open>''common.hpp'' \<notin> once st\<close> show ?thesis
      by (simp add: include_common_def include_file_def)
  qed
qed

theorem include_idempotent_witness:
  "defined (initial\<lparr>macros := [''COMMON_HPP'' \<mapsto> ObjectLike []]\<rparr>) ''COMMON_HPP'' \<and>
   (\<exists>st2. run_lines ''common.hpp'' common_hpp [] (initial\<lparr>macros := [''COMMON_HPP'' \<mapsto> ObjectLike []]\<rparr>)
            = Inr st2 \<and>
          macros st2 = macros (initial\<lparr>macros := [''COMMON_HPP'' \<mapsto> ObjectLike []]\<rparr>) \<and>
          diags st2 = diags (initial\<lparr>macros := [''COMMON_HPP'' \<mapsto> ObjectLike []]\<rparr>))"
proof -
  have d: "defined (initial\<lparr>macros := [''COMMON_HPP'' \<mapsto> ObjectLike []]\<rparr>) ''COMMON_HPP''"
    by (simp add: defined_def)
  from include_idempotent [of "initial\<lparr>macros := [''COMMON_HPP'' \<mapsto> ObjectLike []]\<rparr>"] d
  show ?thesis by blast
qed

text \<open>
  C4. Both feature flags are off: wherever the header is read, \<^verbatim>\<open>USE_COMPRESSED_PTRS\<close> and
  \<^verbatim>\<open>USE_SIZE_CACHES\<close> are bound to the replacement list \<^verbatim>\<open>0\<close> and are replaced by \<^verbatim>\<open>0\<close>.
\<close>

theorem feature_flags_disabled:
  assumes "\<not> defined st ''COMMON_HPP''" and "''common.hpp'' \<notin> once st"
  shows "\<exists>st'. include_common st = Inr st' \<and>
           macros st' ''USE_COMPRESSED_PTRS'' = Some (ObjectLike [Num 0]) \<and>
           macros st' ''USE_SIZE_CACHES'' = Some (ObjectLike [Num 0]) \<and>
           (\<forall>k loc. expand (Suc k) (macros st') loc [Ident ''USE_COMPRESSED_PTRS''] = Inr [Num 0] \<and>
                    expand (Suc k) (macros st') loc [Ident ''USE_SIZE_CACHES''] = Inr [Num 0])"
  using assms by (simp add: run_header)

theorem feature_flags_disabled_witness:
  "\<not> defined initial ''COMMON_HPP'' \<and> ''common.hpp'' \<notin> once initial \<and>
   (\<exists>st'. include_common initial = Inr st' \<and>
      expand (Suc 0) (macros st') (''main.cpp'', 1) [Ident ''USE_COMPRESSED_PTRS''] = Inr [Num 0] \<and>
      expand (Suc 0) (macros st') (''main.cpp'', 1) [Ident ''USE_SIZE_CACHES''] = Inr [Num 0])"
  using feature_flags_disabled [OF initial_fresh] initial_fresh by blast



text \<open>
  C5. \<^verbatim>\<open>CACHELINE_ALIGNED_FN\<close> is an alias of \<^verbatim>\<open>CACHELINE_ALIGNED\<close>: wherever the header is
  read (and neither \<^verbatim>\<open>__attribute__\<close> nor \<^verbatim>\<open>aligned\<close> is itself a macro), the two names and
  \<^verbatim>\<open>ATTRIBUTE_ALIGNED(CACHELINE_SIZE)\<close> all have the same replacement,
  \<^verbatim>\<open>__attribute__((aligned(64)))\<close>, given four units of fuel or more.
\<close>

theorem cacheline_aligned_alias:
  assumes "\<not> defined st ''COMMON_HPP''" and "''common.hpp'' \<notin> once st"
    and "\<not> defined st ''__attribute__''" and "\<not> defined st ''aligned''"
  shows "\<exists>st'. include_common st = Inr st' \<and>
           (\<forall>k loc.
              expand (Suc (Suc (Suc (Suc k)))) (macros st') loc [Ident ''CACHELINE_ALIGNED_FN''] =
                Inr [Ident ''__attribute__'', LParen, LParen, Ident ''aligned'', LParen, Num 64,
                     RParen, RParen, RParen] \<and>
              expand (Suc (Suc (Suc (Suc k)))) (macros st') loc [Ident ''CACHELINE_ALIGNED''] =
                Inr [Ident ''__attribute__'', LParen, LParen, Ident ''aligned'', LParen, Num 64,
                     RParen, RParen, RParen] \<and>
              expand (Suc (Suc (Suc (Suc k)))) (macros st') loc
                  [Ident ''ATTRIBUTE_ALIGNED'', LParen, Ident ''CACHELINE_SIZE'', RParen] =
                Inr [Ident ''__attribute__'', LParen, LParen, Ident ''aligned'', LParen, Num 64,
                     RParen, RParen, RParen])"
  using assms
  by (cases "defined st ''likely''"; cases "defined st ''__DEBUG''")
     (simp_all add: run_header defined_def attribute_def bind_args_def paste_next_def)

theorem cacheline_aligned_alias_witness:
  "\<not> defined initial ''COMMON_HPP'' \<and> ''common.hpp'' \<notin> once initial \<and>
   \<not> defined initial ''__attribute__'' \<and> \<not> defined initial ''aligned'' \<and>
   (\<exists>st'. include_common initial = Inr st' \<and>
      expand (Suc (Suc (Suc (Suc 0)))) (macros st') (''main.cpp'', 3)
          [Ident ''CACHELINE_ALIGNED_FN''] =
        Inr [Ident ''__attribute__'', LParen, LParen, Ident ''aligned'', LParen, Num 64,
             RParen, RParen, RParen] \<and>
      expand (Suc (Suc (Suc (Suc 0)))) (macros st') (''main.cpp'', 3)
          [Ident ''CACHELINE_ALIGNED''] =
        Inr [Ident ''__attribute__'', LParen, LParen, Ident ''aligned'', LParen, Num 64,
             RParen, RParen, RParen])"
proof -
  from cacheline_aligned_alias [OF initial_fresh initial_fresh(1) initial_fresh(1)] obtain st'
    where "include_common initial = Inr st'"
      and "\<forall>k loc.
              expand (Suc (Suc (Suc (Suc k)))) (macros st') loc [Ident ''CACHELINE_ALIGNED_FN''] =
                Inr [Ident ''__attribute__'', LParen, LParen, Ident ''aligned'', LParen, Num 64,
                     RParen, RParen, RParen] \<and>
              expand (Suc (Suc (Suc (Suc k)))) (macros st') loc [Ident ''CACHELINE_ALIGNED''] =
                Inr [Ident ''__attribute__'', LParen, LParen, Ident ''aligned'', LParen, Num 64,
                     RParen, RParen, RParen] \<and>
              expand (Suc (Suc (Suc (Suc k)))) (macros st') loc
                  [Ident ''ATTRIBUTE_ALIGNED'', LParen, Ident ''CACHELINE_SIZE'', RParen] =
                Inr [Ident ''__attribute__'', LParen, LParen, Ident ''aligned'', LParen, Num 64,
                     RParen, RParen, RParen]"
    by (elim exE conjE) (rule that)
  then show ?thesis
    by (intro conjI initial_fresh exI [of _ st']) (simp_all del: expand.simps)
qed

text \<open>
  C6. Wherever the header is read and \<^verbatim>\<open>likely\<close> is not yet a macro, \<^verbatim>\<open>likely\<close> and
  \<^verbatim>\<open>unlikely\<close> are bound to the two macros of lines 7 and 8. Every invocation \<^verbatim>\<open>likely(x)\<close>
  is replaced by \<^verbatim>\<open>__builtin_expect(!!(x'), 1)\<close> and every \<^verbatim>\<open>unlikely(x)\<close> by
  \<^verbatim>\<open>__builtin_expect(!!(x'), 0)\<close>, where \<open>x'\<close> is the replacement of \<open>x\<close>, rescanned with what
  follows; when \<open>x\<close> holds no macro names and \<^verbatim>\<open>__builtin_expect\<close> is not a macro, the results
  are \<^verbatim>\<open>__builtin_expect(!!(x), 1)\<close> and \<^verbatim>\<open>__builtin_expect(!!(x), 0)\<close>.
\<close>

theorem likely_unlikely_wrap:
  assumes "\<not> defined st ''COMMON_HPP''" and "''common.hpp'' \<notin> once st"
    and "\<not> defined st ''likely''"
  shows "\<exists>st'. include_common st = Inr st' \<and>
           macros st' ''likely'' = Some likely_macro \<and>
           macros st' ''unlikely'' = Some unlikely_macro \<and>
           (\<forall>ts x rest k loc.
              collect_args 0 [] [] ts = Some ([x], rest) \<longrightarrow>
              expand (Suc k) (macros st') loc (Ident ''likely'' # LParen # ts) =
                (case expand k (macros st') loc x of
                   Inl e \<Rightarrow> Inl e
                 | Inr x' \<Rightarrow>
                     expand k (macros st') loc
                       ([Ident ''__builtin_expect'', LParen, Punct ''!'', Punct ''!'', LParen] @ x' @
                        [RParen, Comma, Num 1, RParen] @ rest)) \<and>
              expand (Suc k) (macros st') loc (Ident ''unlikely'' # LParen # ts) =
                (case expand k (macros st') loc x of
                   Inl e \<Rightarrow> Inl e
                 | Inr x' \<Rightarrow>
                     expand k (macros st') loc
                       ([Ident ''__builtin_expect'', LParen, Punct ''!'', Punct ''!'', LParen] @ x' @
                        [RParen, Comma, Num 0, RParen] @ rest)) \<and>
              (plain (macros st') x \<longrightarrow> macros st' ''__builtin_expect'' = None \<longrightarrow>
               expand (Suc k) (macros st') loc (Ident ''likely'' # LParen # ts) =
                 map_sum id
                   ((@) ([Ident ''__builtin_expect'', LParen, Punct ''!'', Punct ''!'', LParen] @ x @
                         [RParen, Comma, Num 1, RParen]))
                   (expand k (macros st') loc rest) \<and>
               expand (Suc k) (macros st') loc (Ident ''unlikely'' # LParen # ts) =
                 map_sum id
                   ((@) ([Ident ''__builtin_expect'', LParen, Punct ''!'', Punct ''!'', LParen] @ x @
                         [RParen, Comma, Num 0, RParen]))
                   (expand k (macros st') loc rest)))"
    (is "\<exists>st'. _ \<and> _ \<and> _ \<and> (\<forall>ts x rest k loc. ?P st' ts x rest k loc)")
proof -
  have "\<exists>st'. include_common st = Inr st' \<and>
          macros st' ''likely'' = Some likely_macro \<and> macros st' ''unlikely'' = Some unlikely_macro"
    using assms by (simp add: run_header)
  then obtain st' where inc: "include_common st = Inr st'"
    and l: "macros st' ''likely'' = Some likely_macro"
    and u: "macros st' ''unlikely'' = Some unlikely_macro"
    by (elim exE conjE) (rule that)
  have main: "?P st' ts x rest k loc" for ts x rest k loc
    by (intro impI conjI)
       (erule expand_likely_any [where env = "macros st'", OF l],
        erule expand_unlikely_any [where env = "macros st'", OF u],
        erule (2) expand_likely [where env = "macros st'", OF l],
        erule (2) expand_unlikely [where env = "macros st'", OF u])
  show ?thesis
    by (intro exI [of _ st'] conjI allI) (rule inc, rule l, rule u, rule main)
qed

theorem likely_unlikely_wrap_witness:
  "\<not> defined initial ''COMMON_HPP'' \<and> ''common.hpp'' \<notin> once initial \<and>
   \<not> defined initial ''likely'' \<and>
   (\<exists>st'. include_common initial = Inr st' \<and>
      collect_args 0 [] [] [Ident ''p'', RParen] = Some ([[Ident ''p'']], []) \<and>
      plain (macros st') [Ident ''p''] \<and> macros st' ''__builtin_expect'' = None \<and>
      expand (Suc 0) (macros st') (''main.cpp'', 5) [Ident ''likely'', LParen, Ident ''p'', RParen] =
        Inr [Ident ''__builtin_expect'', LParen, Punct ''!'', Punct ''!'', LParen, Ident ''p'',
             RParen, Comma, Num 1, RParen] \<and>
      expand (Suc 0) (macros st') (''main.cpp'', 5) [Ident ''unlikely'', LParen, Ident ''p'', RParen] =
        Inr [Ident ''__builtin_expect'', LParen, Punct ''!'', Punct ''!'', LParen, Ident ''p'',
             RParen, Comma, Num 0, RParen])"
proof -
  have c: "collect_args 0 [] [] [Ident ''p'', RParen] = Some ([[Ident ''p'']], [])"
    by simp
  from likely_unlikely_wrap [OF initial_fresh initial_fresh(1)] obtain st'
    where i: "include_common initial = Inr st'"
      and h: "\<forall>ts x rest k loc.
              collect_args 0 [] [] ts = Some ([x], rest) \<longrightarrow>
              expand (Suc k) (macros st') loc (Ident ''likely'' # LParen # ts) =
                (case expand k (macros st') loc x of
                   Inl e \<Rightarrow> Inl e
                 | Inr x' \<Rightarrow>
                     expand k (macros st') loc
                       ([Ident ''__builtin_expect'', LParen, Punct ''!'', Punct ''!'', LParen] @ x' @
                        [RParen, Comma, Num 1, RParen] @ rest)) \<and>
              expand (Suc k) (macros st') loc (Ident ''unlikely'' # LParen # ts) =
                (case expand k (macros st') loc x of
                   Inl e \<Rightarrow> Inl e
                 | Inr x' \<Rightarrow>
                     expand k (macros st') loc
                       ([Ident ''__builtin_expect'', LParen, Punct ''!'', Punct ''!'', LParen] @ x' @
                        [RParen, Comma, Num 0, RParen] @ rest)) \<and>
              (plain (macros st') x \<longrightarrow> macros st' ''__builtin_expect'' = None \<longrightarrow>
               expand (Suc k) (macros st') loc (Ident ''likely'' # LParen # ts) =
                 map_sum id
                   ((@) ([Ident ''__builtin_expect'', LParen, Punct ''!'', Punct ''!'', LParen] @ x @
                         [RParen, Comma, Num 1, RParen]))
                   (expand k (macros st') loc rest) \<and>
               expand (Suc k) (macros st') loc (Ident ''unlikely'' # LParen # ts) =
                 map_sum id
                   ((@) ([Ident ''__builtin_expect'', LParen, Punct ''!'', Punct ''!'', LParen] @ x @
                         [RParen, Comma, Num 0, RParen]))
                   (expand k (macros st') loc rest))"
    by (elim exE conjE) (rule that)
  have p: "plain (macros st') [Ident ''p'']"
    using initial_table [OF i] by (simp add: plain_def)
  note b = initial_table(3) [OF i]
  from h [rule_format, OF c, of 0 "(''main.cpp'', 5)",
          THEN conjunct2, THEN conjunct2, rule_format, OF p b]
  have "expand (Suc 0) (macros st') (''main.cpp'', 5) [Ident ''likely'', LParen, Ident ''p'', RParen] =
        Inr [Ident ''__builtin_expect'', LParen, Punct ''!'', Punct ''!'', LParen, Ident ''p'',
             RParen, Comma, Num 1, RParen]"
    and "expand (Suc 0) (macros st') (''main.cpp'', 5) [Ident ''unlikely'', LParen, Ident ''p'', RParen] =
        Inr [Ident ''__builtin_expect'', LParen, Punct ''!'', Punct ''!'', LParen, Ident ''p'',
             RParen, Comma, Num 0, RParen]"
    by (simp_all del: expand.simps) simp_all
  with i c p b initial_fresh show ?thesis
    by (intro conjI exI [of _ st']) assumption+
qed

text \<open>
  C7, as stated: the macro names defined by including the header are exactly the thirteen
  listed ones. This fails: in a translation unit that has defined nothing, the table after
  the inclusion also binds the guard symbol \<^verbatim>\<open>COMMON_HPP\<close> (line 4).
\<close>

theorem exported_names_counterexample:
  "\<not> isl (include_common initial) \<and>
   dom (macros (projr (include_common initial))) \<noteq>
     {''likely'', ''unlikely'', ''ATTRIBUTE_NEVER_INLINE'', ''ATTRIBUTE_ALWAYS_INLINE'',
      ''ATTRIBUTE_HIDDEN'', ''ATTRIBUTE_EXPORT'', ''ATTRIBUTE_ALIGNED'', ''CACHELINE_SIZE'',
      ''CACHELINE_ALIGNED'', ''CACHELINE_ALIGNED_FN'', ''USE_COMPRESSED_PTRS'', ''USE_SIZE_CACHES'',
      ''DEBUG''}"
proof -
  have "\<exists>st'. include_common initial = Inr st' \<and> macros st' ''COMMON_HPP'' = Some (ObjectLike [])"
    by (simp add: run_header initial_fresh)
  then obtain st' where inc: "include_common initial = Inr st'"
    and g: "macros st' ''COMMON_HPP'' = Some (ObjectLike [])"
    by (elim exE conjE) (rule that)
  from g have i: "''COMMON_HPP'' \<in> dom (macros st')"
    by (simp add: dom_def)
  have "dom (macros st') \<noteq>
     {''likely'', ''unlikely'', ''ATTRIBUTE_NEVER_INLINE'', ''ATTRIBUTE_ALWAYS_INLINE'',
      ''ATTRIBUTE_HIDDEN'', ''ATTRIBUTE_EXPORT'', ''ATTRIBUTE_ALIGNED'', ''CACHELINE_SIZE'',
      ''CACHELINE_ALIGNED'', ''CACHELINE_ALIGNED_FN'', ''USE_COMPRESSED_PTRS'', ''USE_SIZE_CACHES'',
      ''DEBUG''}"
  proof
    assume e: "dom (macros st') =
     {''likely'', ''unlikely'', ''ATTRIBUTE_NEVER_INLINE'', ''ATTRIBUTE_ALWAYS_INLINE'',
      ''ATTRIBUTE_HIDDEN'', ''ATTRIBUTE_EXPORT'', ''ATTRIBUTE_ALIGNED'', ''CACHELINE_SIZE'',
      ''CACHELINE_ALIGNED'', ''CACHELINE_ALIGNED_FN'', ''USE_COMPRESSED_PTRS'', ''USE_SIZE_CACHES'',
      ''DEBUG''}"
    from i show False
      unfolding e by simp
  qed
  with inc show ?thesis
    by simp
qed

text \<open>
  C7, amended: wherever the header is read and \<^verbatim>\<open>likely\<close> is not yet a macro, the names
  bound afterwards are those bound before together with exactly the thirteen listed names
  and the guard symbol \<^verbatim>\<open>COMMON_HPP\<close>.
\<close>

theorem header_defines_names:
  assumes "\<not> defined st ''COMMON_HPP''" and "''common.hpp'' \<notin> once st"
    and "\<not> defined st ''likely''"
  shows "\<exists>st'. include_common st = Inr st' \<and>
           dom (macros st') = dom (macros st) \<union>
             {''COMMON_HPP'',
              ''likely'', ''unlikely'', ''ATTRIBUTE_NEVER_INLINE'', ''ATTRIBUTE_ALWAYS_INLINE'',
              ''ATTRIBUTE_HIDDEN'', ''ATTRIBUTE_EXPORT'', ''ATTRIBUTE_ALIGNED'', ''CACHELINE_SIZE'',
              ''CACHELINE_ALIGNED'', ''CACHELINE_ALIGNED_FN'', ''USE_COMPRESSED_PTRS'',
              ''USE_SIZE_CACHES'', ''DEBUG''}"
  using dom_after_include [OF assms] by (simp only: names_as_union)

theorem header_defines_names_witness:
  "\<not> defined initial ''COMMON_HPP'' \<and> ''common.hpp'' \<notin> once initial \<and> \<not> defined initial ''likely'' \<and>
   (\<exists>st'. include_common initial = Inr st' \<and>
      dom (macros st') = dom (macros initial) \<union>
             {''COMMON_HPP'',
              ''likely'', ''unlikely'', ''ATTRIBUTE_NEVER_INLINE'', ''ATTRIBUTE_ALWAYS_INLINE'',
              ''ATTRIBUTE_HIDDEN'', ''ATTRIBUTE_EXPORT'', ''ATTRIBUTE_ALIGNED'', ''CACHELINE_SIZE'',
              ''CACHELINE_ALIGNED'', ''CACHELINE_ALIGNED_FN'', ''USE_COMPRESSED_PTRS'',
              ''USE_SIZE_CACHES'', ''DEBUG''})"
  by (intro conjI initial_fresh header_defines_names [OF initial_fresh initial_fresh(1)])

text \<open>
  C8. In the default configuration (the header read where \<^verbatim>\<open>__DEBUG\<close> is not defined),
  \<^verbatim>\<open>DEBUG\<close> is bound to the empty variadic macro, and every invocation \<^verbatim>\<open>DEBUG(...)\<close>,
  whatever its arguments, contributes no token: the replacement of the invocation followed
  by \<open>rest\<close> is the replacement of \<open>rest\<close> alone.
\<close>

theorem debug_noop_default:
  assumes "\<not> defined st ''COMMON_HPP''" and "''common.hpp'' \<notin> once st"
    and "\<not> defined st ''__DEBUG''"
  shows "\<exists>st'. include_common st = Inr st' \<and>
           macros st' ''DEBUG'' = Some debug_empty_macro \<and>
           (\<forall>ts args rest k loc.
              collect_args 0 [] [] ts = Some (args, rest) \<longrightarrow>
              expand (Suc k) (macros st') loc (Ident ''DEBUG'' # LParen # ts) =
                expand k (macros st') loc rest)"
proof -
  have "\<exists>st'. include_common st = Inr st' \<and> macros st' ''DEBUG'' = Some debug_empty_macro"
    using assms by (simp add: run_header)
  then obtain st' where inc: "include_common st = Inr st'"
    and e: "macros st' ''DEBUG'' = Some debug_empty_macro"
    by (elim exE conjE) (rule that)
  have "expand (Suc k) (macros st') loc (Ident ''DEBUG'' # LParen # ts) =
          expand k (macros st') loc rest"
    if "collect_args 0 [] [] ts = Some (args, rest)" for ts args rest k loc
    using e that by (rule expand_debug_empty [where env = "macros st'"])
  with inc e show ?thesis
    by (simp del: expand.simps)
qed

theorem debug_noop_default_witness:
  "\<not> defined initial ''COMMON_HPP'' \<and> ''common.hpp'' \<notin> once initial \<and>
   \<not> defined initial ''__DEBUG'' \<and>
   (\<exists>st'. include_common initial = Inr st' \<and>
      collect_args 0 [] [] [Str ''n=%d'', Comma, Ident ''f'', LParen, Ident ''n'', RParen, RParen,
                            Punct '';''] =
        Some ([[Str ''n=%d''], [Ident ''f'', LParen, Ident ''n'', RParen]], [Punct '';'']) \<and>
      expand (Suc 0) (macros st') (''main.cpp'', 9)
          [Ident ''DEBUG'', LParen, Str ''n=%d'', Comma, Ident ''f'', LParen, Ident ''n'', RParen,
           RParen, Punct '';''] =
        Inr [Punct '';''])"
proof -
  have c: "collect_args 0 [] [] [Str ''n=%d'', Comma, Ident ''f'', LParen, Ident ''n'', RParen, RParen,
                            Punct '';''] =
        Some ([[Str ''n=%d''], [Ident ''f'', LParen, Ident ''n'', RParen]], [Punct '';''])"
    by simp
  from debug_noop_default [OF initial_fresh initial_fresh(1)] obtain st'
    where i: "include_common initial = Inr st'"
      and h: "\<forall>ts args rest k loc.
              collect_args 0 [] [] ts = Some (args, rest) \<longrightarrow>
              expand (Suc k) (macros st') loc (Ident ''DEBUG'' # LParen # ts) =
                expand k (macros st') loc rest"
    by (elim exE conjE) (rule that)
  from h [rule_format, OF c, of 0 "(''main.cpp'', 9)"]
  have "expand (Suc 0) (macros st') (''main.cpp'', 9)
          [Ident ''DEBUG'', LParen, Str ''n=%d'', Comma, Ident ''f'', LParen, Ident ''n'', RParen,
           RParen, Punct '';''] =
        Inr [Punct '';'']"
    by (simp del: expand.simps) simp
  with i c initial_fresh show ?thesis
    by (intro conjI exI [of _ st']) assumption+
qed

text \<open>
  C10. The two definitions hang on the single name \<^verbatim>\<open>likely\<close>. In every context, the
  inclusion succeeds, and if \<^verbatim>\<open>likely\<close> was already a macro, the bindings of \<^verbatim>\<open>likely\<close> and
  of \<^verbatim>\<open>unlikely\<close> (bound or not) are what they were. The name \<^verbatim>\<open>unlikely\<close> has no guard of
  its own: where the header is read and \<^verbatim>\<open>likely\<close> was not a macro, \<^verbatim>\<open>unlikely\<close> is bound to
  the header's macro, whatever it was bound to before.
\<close>

theorem likely_gate_frame:
  "\<exists>st'. include_common st = Inr st' \<and>
     (defined st ''likely'' \<longrightarrow>
        macros st' ''likely'' = macros st ''likely'' \<and>
        macros st' ''unlikely'' = macros st ''unlikely'') \<and>
     (\<not> defined st ''likely'' \<and> \<not> defined st ''COMMON_HPP'' \<and> ''common.hpp'' \<notin> once st \<longrightarrow>
        macros st' ''unlikely'' = Some unlikely_macro)"
proof (cases "''common.hpp'' \<in> once st")
  case True
  then show ?thesis
    by (simp add: include_common_def include_file_def)
next
  case unread: False
  show ?thesis
  proof (cases "defined st ''COMMON_HPP''")
    case True
    with unread show ?thesis
      by (simp add: include_common_def include_file_def guarded_skip)
  next
    case False
    with unread show ?thesis
      by (cases "defined st ''likely''"; cases "defined st ''__DEBUG''")
         (simp_all add: run_header)
  qed
qed

theorem likely_gate_frame_witness:
  "(defined (initial\<lparr>macros := [''likely'' \<mapsto> FunctionLike [''x''] None [Ident ''x'']]\<rparr>) ''likely'' \<and>
    (\<exists>st'. include_common (initial\<lparr>macros := [''likely'' \<mapsto> FunctionLike [''x''] None [Ident ''x'']]\<rparr>)
             = Inr st' \<and>
           macros st' ''likely'' = Some (FunctionLike [''x''] None [Ident ''x'']) \<and>
           macros st' ''unlikely'' = None)) \<and>
   (\<not> defined (initial\<lparr>macros := [''unlikely'' \<mapsto> FunctionLike [''x''] None [Ident ''x'']]\<rparr>) ''likely'' \<and>
    \<not> defined (initial\<lparr>macros := [''unlikely'' \<mapsto> FunctionLike [''x''] None [Ident ''x'']]\<rparr>)
        ''COMMON_HPP'' \<and>
    ''common.hpp'' \<notin> once (initial\<lparr>macros := [''unlikely'' \<mapsto> FunctionLike [''x''] None [Ident ''x'']]\<rparr>) \<and>
    (\<exists>st'. include_common (initial\<lparr>macros := [''unlikely'' \<mapsto> FunctionLike [''x''] None [Ident ''x'']]\<rparr>)
             = Inr st' \<and>
           macros st' ''unlikely'' = Some unlikely_macro))"
proof -
  let ?A = "initial\<lparr>macros := [''likely'' \<mapsto> FunctionLike [''x''] None [Ident ''x'']]\<rparr>"
  let ?B = "initial\<lparr>macros := [''unlikely'' \<mapsto> FunctionLike [''x''] None [Ident ''x'']]\<rparr>"
  have a: "defined ?A ''likely''"
    by (simp add: defined_def)
  have ma: "macros ?A ''likely'' = Some (FunctionLike [''x''] None [Ident ''x''])"
    "macros ?A ''unlikely'' = None"
    by simp_all
  have b: "\<not> defined ?B ''likely''" "\<not> defined ?B ''COMMON_HPP''" "''common.hpp'' \<notin> once ?B"
    by (simp_all add: defined_def initial_def)
  from likely_gate_frame [of ?A] obtain st1
    where i1: "include_common ?A = Inr st1"
      and f1: "defined ?A ''likely'' \<longrightarrow>
                 macros st1 ''likely'' = macros ?A ''likely'' \<and>
                 macros st1 ''unlikely'' = macros ?A ''unlikely''"
    by (elim exE conjE) (rule that)
  from f1 a ma have r1: "macros st1 ''likely'' = Some (FunctionLike [''x''] None [Ident ''x''])"
    "macros st1 ''unlikely'' = None"
    by simp_all
  from likely_gate_frame [of ?B] obtain st2
    where i2: "include_common ?B = Inr st2"
      and f2: "\<not> defined ?B ''likely'' \<and> \<not> defined ?B ''COMMON_HPP'' \<and> ''common.hpp'' \<notin> once ?B \<longrightarrow>
                 macros st2 ''unlikely'' = Some unlikely_macro"
    by (elim exE conjE) (rule that)
  from f2 b have r2: "macros st2 ''unlikely'' = Some unlikely_macro"
    by simp
  from a i1 r1 b i2 r2 show ?thesis
    by (intro conjI exI [of _ st1] exI [of _ st2]) assumption+
qed

text \<open>
  C9. The branch hints are transparent. Wherever the header is read and \<^verbatim>\<open>likely\<close> is not yet
  a macro, for every argument \<open>x\<close> (a single argument holding no macro names) that has a
  scalar value \<open>v\<close> in the state \<open>\<sigma>\<close>: \<^verbatim>\<open>likely(x)\<close> and \<^verbatim>\<open>unlikely(x)\<close> are replaced by the
  tokens of \<^verbatim>\<open>__builtin_expect(!!(x), 1)\<close> and \<^verbatim>\<open>__builtin_expect(!!(x), 0)\<close>, and both
  expressions, like \<^verbatim>\<open>!!(x)\<close>, evaluate to 1 if \<open>v\<close> is nonzero and to 0 if it is zero.
\<close>

theorem branch_hints_transparent:
  assumes "\<not> defined st ''COMMON_HPP''" and "''common.hpp'' \<notin> once st"
    and "\<not> defined st ''likely''"
  shows "\<exists>st'. include_common st = Inr st' \<and>
           (\<forall>ts x rest k loc \<sigma> v.
              collect_args 0 [] [] ts = Some ([x], rest) \<longrightarrow>
              plain (macros st') x \<longrightarrow> macros st' ''__builtin_expect'' = None \<longrightarrow>
              \<sigma> x = Some v \<longrightarrow>
              expand (Suc k) (macros st') loc (Ident ''likely'' # LParen # ts) =
                map_sum id
                  ((@) (show_expr (Expect (Not (Not (Paren (Operand x)))) (Const 1))))
                  (expand k (macros st') loc rest) \<and>
              expand (Suc k) (macros st') loc (Ident ''unlikely'' # LParen # ts) =
                map_sum id
                  ((@) (show_expr (Expect (Not (Not (Paren (Operand x)))) (Const 0))))
                  (expand k (macros st') loc rest) \<and>
              eval \<sigma> (Expect (Not (Not (Paren (Operand x)))) (Const 1)) =
                Some (IntV (if nonzero v then 1 else 0)) \<and>
              eval \<sigma> (Expect (Not (Not (Paren (Operand x)))) (Const 0)) =
                Some (IntV (if nonzero v then 1 else 0)) \<and>
              eval \<sigma> (Not (Not (Paren (Operand x)))) =
                Some (IntV (if nonzero v then 1 else 0)))"
proof -
  have "\<exists>st'. include_common st = Inr st' \<and>
          macros st' ''likely'' = Some likely_macro \<and> macros st' ''unlikely'' = Some unlikely_macro"
    using assms by (simp add: run_header)
  then obtain st' where inc: "include_common st = Inr st'"
    and l: "macros st' ''likely'' = Some likely_macro"
    and u: "macros st' ''unlikely'' = Some unlikely_macro"
    by (elim exE conjE) (rule that)
  have s: "show_expr (Expect (Not (Not (Paren (Operand x)))) (Const c)) =
             [Ident ''__builtin_expect'', LParen, Punct ''!'', Punct ''!'', LParen] @ x @
             [RParen, Comma, Num c, RParen]" for x c
    by simp
  have "expand (Suc k) (macros st') loc (Ident ''likely'' # LParen # ts) =
          map_sum id
            ((@) (show_expr (Expect (Not (Not (Paren (Operand x)))) (Const 1))))
            (expand k (macros st') loc rest) \<and>
        expand (Suc k) (macros st') loc (Ident ''unlikely'' # LParen # ts) =
          map_sum id
            ((@) (show_expr (Expect (Not (Not (Paren (Operand x)))) (Const 0))))
            (expand k (macros st') loc rest) \<and>
        eval \<sigma> (Expect (Not (Not (Paren (Operand x)))) (Const 1)) =
          Some (IntV (if nonzero v then 1 else 0)) \<and>
        eval \<sigma> (Expect (Not (Not (Paren (Operand x)))) (Const 0)) =
          Some (IntV (if nonzero v then 1 else 0)) \<and>
        eval \<sigma> (Not (Not (Paren (Operand x)))) =
          Some (IntV (if nonzero v then 1 else 0))"
    if c: "collect_args 0 [] [] ts = Some ([x], rest)" and p: "plain (macros st') x"
      and b: "macros st' ''__builtin_expect'' = None" and v: "\<sigma> x = Some v"
    for ts x rest k loc \<sigma> v
  proof (intro conjI)
    show "expand (Suc k) (macros st') loc (Ident ''likely'' # LParen # ts) =
          map_sum id
            ((@) (show_expr (Expect (Not (Not (Paren (Operand x)))) (Const 1))))
            (expand k (macros st') loc rest)"
      unfolding s by (rule expand_likely [where env = "macros st'", OF l c p b])
    show "expand (Suc k) (macros st') loc (Ident ''unlikely'' # LParen # ts) =
          map_sum id
            ((@) (show_expr (Expect (Not (Not (Paren (Operand x)))) (Const 0))))
            (expand k (macros st') loc rest)"
      unfolding s by (rule expand_unlikely [where env = "macros st'", OF u c p b])
  qed (simp_all add: v)
  with inc show ?thesis
    by (simp del: expand.simps show_expr.simps eval.simps)
qed

theorem branch_hints_transparent_witness:
  "\<not> defined initial ''COMMON_HPP'' \<and> ''common.hpp'' \<notin> once initial \<and>
   \<not> defined initial ''likely'' \<and>
   (\<exists>st'. include_common initial = Inr st' \<and>
      collect_args 0 [] [] [Ident ''p'', RParen] = Some ([[Ident ''p'']], []) \<and>
      plain (macros st') [Ident ''p''] \<and> macros st' ''__builtin_expect'' = None \<and>
      [[Ident ''p''] \<mapsto> PtrV 4096] [Ident ''p''] = Some (PtrV 4096) \<and>
      expand (Suc 0) (macros st') (''main.cpp'', 5) [Ident ''likely'', LParen, Ident ''p'', RParen] =
        Inr (show_expr (Expect (Not (Not (Paren (Operand [Ident ''p''])))) (Const 1))) \<and>
      expand (Suc 0) (macros st') (''main.cpp'', 5) [Ident ''unlikely'', LParen, Ident ''p'', RParen] =
        Inr (show_expr (Expect (Not (Not (Paren (Operand [Ident ''p''])))) (Const 0))) \<and>
      eval [[Ident ''p''] \<mapsto> PtrV 4096] (Expect (Not (Not (Paren (Operand [Ident ''p''])))) (Const 1)) =
        Some (IntV 1) \<and>
      eval [[Ident ''p''] \<mapsto> PtrV 4096] (Expect (Not (Not (Paren (Operand [Ident ''p''])))) (Const 0)) =
        Some (IntV 1))"
proof -
  let ?s = "[[Ident ''p''] \<mapsto> PtrV 4096]"
  have c: "collect_args 0 [] [] [Ident ''p'', RParen] = Some ([[Ident ''p'']], [])"
    by simp
  have v: "?s [Ident ''p''] = Some (PtrV 4096)"
    by simp
  from branch_hints_transparent [OF initial_fresh initial_fresh(1)] obtain st'
    where i: "include_common initial = Inr st'"
      and h: "\<forall>ts x rest k loc \<sigma> v.
              collect_args 0 [] [] ts = Some ([x], rest) \<longrightarrow>
              plain (macros st') x \<longrightarrow> macros st' ''__builtin_expect'' = None \<longrightarrow>
              \<sigma> x = Some v \<longrightarrow>
              expand (Suc k) (macros st') loc (Ident ''likely'' # LParen # ts) =
                map_sum id
                  ((@) (show_expr (Expect (Not (Not (Paren (Operand x)))) (Const 1))))
                  (expand k (macros st') loc rest) \<and>
              expand (Suc k) (macros st') loc (Ident ''unlikely'' # LParen # ts) =
                map_sum id
                  ((@) (show_expr (Expect (Not (Not (Paren (Operand x)))) (Const 0))))
                  (expand k (macros st') loc rest) \<and>
              eval \<sigma> (Expect (Not (Not (Paren (Operand x)))) (Const 1)) =
                Some (IntV (if nonzero v then 1 else 0)) \<and>
              eval \<sigma> (Expect (Not (Not (Paren (Operand x)))) (Const 0)) =
                Some (IntV (if nonzero v then 1 else 0)) \<and>
              eval \<sigma> (Not (Not (Paren (Operand x)))) =
                Some (IntV (if nonzero v then 1 else 0))"
    by (elim exE conjE) (rule that)
  have p: "plain (macros st') [Ident ''p'']"
    using initial_table [OF i] by (simp add: plain_def)
  note b = initial_table(3) [OF i]
  from h [rule_format, where \<sigma> = ?s, OF c p b v, of 0 "(''main.cpp'', 5)"]
  have "expand (Suc 0) (macros st') (''main.cpp'', 5) [Ident ''likely'', LParen, Ident ''p'', RParen] =
        Inr (show_expr (Expect (Not (Not (Paren (Operand [Ident ''p''])))) (Const 1)))"
    and "expand (Suc 0) (macros st') (''main.cpp'', 5) [Ident ''unlikely'', LParen, Ident ''p'', RParen] =
        Inr (show_expr (Expect (Not (Not (Paren (Operand [Ident ''p''])))) (Const 0)))"
    and "eval ?s (Expect (Not (Not (Paren (Operand [Ident ''p''])))) (Const 1)) = Some (IntV 1)"
    and "eval ?s (Expect (Not (Not (Paren (Operand [Ident ''p''])))) (Const 0)) = Some (IntV 1)"
    by (simp_all del: expand.simps show_expr.simps eval.simps) simp_all
  with i c p b v initial_fresh show ?thesis
    by (intro conjI exI [of _ st']) assumption+
qed

end
